theory Spec2Isabelle
  imports Main
begin

section \<open>Python values and exceptions\<close>

text \<open>
  The logger of \<^verbatim>\<open>src/main.py\<close> handles dynamically typed values: the
  return value of the wrapped function, the keyword arguments of the call and the fields
  of the log line. The model covers \<^verbatim>\<open>None\<close>, integers, strings, \<^verbatim>\<open>dict\<close>s
  with string keys, \<^verbatim>\<open>DotMap\<close>s and plain objects carrying named attributes.
  A dictionary is an association list in insertion order; the first pair of a key is the
  binding. Floating point values are outside the model. A \<^typ>\<open>char\<close> stands for one
  character of a Python string.
\<close>

datatype pyval =
    PNone
  | PInt int
  | PStr string
  | PDict "(string \<times> pyval) list"
  | PDotMap "(string \<times> pyval) list"
  | PObj "(string \<times> pyval) list"

datatype exn = AttributeError | TypeError | FileNotFoundError | OSError

section \<open>The class constants\<close>

definition ESC :: char where
  "ESC = CHR 0x1B"

definition HEADER :: string where "HEADER = ESC # ''[95m''"
definition OKBLUE :: string where "OKBLUE = ESC # ''[94m''"
definition OKCYAN :: string where "OKCYAN = ESC # ''[96m''"
definition OKGREEN :: string where "OKGREEN = ESC # ''[92m''"
definition WARNING :: string where "WARNING = ESC # ''[93m''"
definition WHITE :: string where "WHITE = ESC # ''[97m''"
definition FAIL :: string where "FAIL = ESC # ''[91m''"
definition ENDC :: string where "ENDC = ESC # ''[0m''"
definition BOLD :: string where "BOLD = ESC # ''[1m''"
definition UNDERLINE :: string where "UNDERLINE = ESC # ''[4m''"

text \<open>The fields stored by \<^verbatim>\<open>__init__\<close>.\<close>

record logger =
  lvl_logging :: string
  exit_path :: string
  color_lvl :: bool
  write_all :: bool

section \<open>Formatting\<close>

text \<open>
  The format specification \<^verbatim>\<open>^w\<close>: a text shorter than \<open>w\<close> is padded with
  spaces, the left side getting the smaller half; a longer text is left as it is.
\<close>

definition center :: "nat \<Rightarrow> string \<Rightarrow> string" where
  "center w s =
     (if w \<le> length s then s
      else (let pad = w - length s; l = pad div 2
            in replicate l (CHR '' '') @ s @ replicate (pad - l) (CHR '' '')))"

definition digit_char :: "nat \<Rightarrow> char" where
  "digit_char d = ''0123456789'' ! d"

fun digits :: "nat \<Rightarrow> string" where
  "digits n = (if n < 10 then [digit_char n] else digits (n div 10) @ [digit_char (n mod 10)])"

declare digits.simps [simp del]

definition str_int :: "int \<Rightarrow> string" where
  "str_int i = (if i < 0 then CHR ''-'' # digits (nat (- i)) else digits (nat i))"

text \<open>
  \<^verbatim>\<open>f"{v:^w}"\<close>: strings and integers are centred; \<^verbatim>\<open>None\<close>, dictionaries and
  plain objects inherit \<^verbatim>\<open>object.__format__\<close>, which raises \<^verbatim>\<open>TypeError\<close> on
  a non-empty format specification.
\<close>

definition fmt_center :: "nat \<Rightarrow> pyval \<Rightarrow> exn + string" where
  "fmt_center w v =
     (case v of
        PStr s \<Rightarrow> Inr (center w s)
      | PInt i \<Rightarrow> Inr (center w (str_int i))
      | _ \<Rightarrow> Inl TypeError)"

text \<open>
  \<^verbatim>\<open>f"{v}"\<close> is \<^verbatim>\<open>str(v)\<close>. The text of a dictionary, a \<^verbatim>\<open>DotMap\<close> or an
  object is given by \<open>rnd\<close>, a parameter of the model.
\<close>

definition py_str :: "(pyval \<Rightarrow> string) \<Rightarrow> pyval \<Rightarrow> string" where
  "py_str rnd v =
     (case v of
        PStr s \<Rightarrow> s
      | PInt i \<Rightarrow> str_int i
      | PNone \<Rightarrow> ''None''
      | _ \<Rightarrow> rnd v)"

text \<open>
  \<^verbatim>\<open>datetime.now()\<close> is an input of the model; only the fields that
  \<^verbatim>\<open>"%Y-%m-%d %H:%M"\<close> prints are kept.
\<close>

record datetime =
  dt_year :: nat
  dt_month :: nat
  dt_day :: nat
  dt_hour :: nat
  dt_minute :: nat

definition zpad :: "nat \<Rightarrow> string \<Rightarrow> string" where
  "zpad w s = replicate (w - length s) (CHR ''0'') @ s"

definition strftime :: "datetime \<Rightarrow> string" where
  "strftime t =
     zpad 4 (digits (dt_year t)) @ ''-'' @ zpad 2 (digits (dt_month t)) @ ''-'' @
     zpad 2 (digits (dt_day t)) @ '' '' @ zpad 2 (digits (dt_hour t)) @ '':'' @
     zpad 2 (digits (dt_minute t))"

text \<open>The dictionary \<^verbatim>\<open>data\<close> passed to \<^verbatim>\<open>__schame_msg__\<close>, with its four keys.\<close>

record log_data =
  d_method :: pyval
  d_url :: pyval
  d_msg :: pyval
  d_status_code :: pyval

definition newline :: char where
  "newline = CHR 0x0A"

text \<open>
  The three padded fields of a line. Each of the two texts of a line formats them anew;
  formatting has no effect, so they are computed once. Any of them may raise.
\<close>

definition padded_fields :: "log_data \<Rightarrow> exn + (string \<times> string \<times> string)" where
  "padded_fields data =
     (case fmt_center 8 (d_method data) of
        Inl e \<Rightarrow> Inl e
      | Inr m \<Rightarrow>
          (case fmt_center 25 (d_url data) of
             Inl e \<Rightarrow> Inl e
           | Inr u \<Rightarrow>
               (case fmt_center 5 (d_status_code data) of
                  Inl e \<Rightarrow> Inl e
                | Inr s \<Rightarrow> Inr (m, u, s))))"

text \<open>
  \<^verbatim>\<open>__schame_msg__\<close>. The result \<open>Inr None\<close> is Python's \<^verbatim>\<open>None\<close>,
  \<open>Inr (Some (c, f))\<close> the pair of the console text and the file text. The clock is read
  once for each text: \<open>t1\<close> for the console text, \<open>t2\<close> for the file text.
  \<open>self\<close> is not read: the colour constants belong to the class.
\<close>

definition schame_msg ::
  "(pyval \<Rightarrow> string) \<Rightarrow> logger \<Rightarrow> datetime \<Rightarrow> datetime \<Rightarrow> string \<Rightarrow> log_data
    \<Rightarrow> exn + (string \<times> string) option" where
  "schame_msg rnd self t1 t2 type_msg data =
     (if type_msg \<notin> set [''info'', ''error'', ''warning'', ''debug''] then Inr None
      else if type_msg = ''info'' then
        (case padded_fields data of
           Inl e \<Rightarrow> Inl e
         | Inr (m, u, s) \<Rightarrow>
             Inr (Some
               (OKGREEN @ ''INFO'' @ ENDC @ '':     '' @ strftime t1 @ '' ||'' @
                WHITE @ BOLD @ m @ ENDC @ ''||'' @
                WHITE @ BOLD @ u @ ENDC @ ''||'' @
                OKGREEN @ '' '' @ s @ '' ||'' @ '' '' @ py_str rnd (d_msg data) @ ENDC,
                ''INFO'' @ '':     '' @ strftime t2 @ '' ||'' @ m @ ''||'' @
                u @ ''|| '' @ s @ '' ||'' @ '' '' @ py_str rnd (d_msg data) @ [newline])))
      else if type_msg = ''error'' then
        (case padded_fields data of
           Inl e \<Rightarrow> Inl e
         | Inr (m, u, s) \<Rightarrow>
             Inr (Some
               (FAIL @ ''ERROR'' @ ENDC @ '':    '' @ strftime t1 @ '' ||'' @
                WHITE @ BOLD @ m @ ENDC @ ''||'' @
                WHITE @ BOLD @ u @ ENDC @ ''||'' @
                FAIL @ '' '' @ s @ '' ||'' @ '' '' @ py_str rnd (d_msg data) @ ENDC,
                ''ERROR:    '' @ strftime t2 @ '' ||'' @ m @ ''||'' @
                u @ ''|| '' @ s @ '' ||'' @ '' '' @ py_str rnd (d_msg data) @ [newline])))
      else Inr None)"

text \<open>
  An ANSI escape sequence starts with the escape character followed by \<^verbatim>\<open>[\<close>;
  every colour constant of the class does.
\<close>

fun has_ansi :: "string \<Rightarrow> bool" where
  "has_ansi (a # b # r) = ((a = ESC \<and> b = CHR ''['') \<or> has_ansi (b # r))"
| "has_ansi _ = False"

section \<open>Dictionaries, DotMaps and attributes\<close>

text \<open>\<^verbatim>\<open>isinstance(v, dict)\<close>: a \<^verbatim>\<open>DotMap\<close> is an \<^verbatim>\<open>OrderedDict\<close>, hence a \<^verbatim>\<open>dict\<close>.\<close>

definition is_dict :: "pyval \<Rightarrow> bool" where
  "is_dict v = (case v of PDict kvs \<Rightarrow> True | PDotMap kvs \<Rightarrow> True | _ \<Rightarrow> False)"

definition items :: "pyval \<Rightarrow> (string \<times> pyval) list" where
  "items v = (case v of PDict kvs \<Rightarrow> kvs | PDotMap kvs \<Rightarrow> kvs | _ \<Rightarrow> [])"

text \<open>\<^verbatim>\<open>d.get(key, default)\<close> on a \<^verbatim>\<open>dict\<close> or a \<^verbatim>\<open>DotMap\<close>.\<close>

definition dict_get :: "pyval \<Rightarrow> string \<Rightarrow> pyval \<Rightarrow> pyval" where
  "dict_get d key dflt = (case map_of (items d) key of Some v \<Rightarrow> v | None \<Rightarrow> dflt)"

text \<open>
  Storing under a key keeps the place of a key that is present and puts a new key last.
\<close>

fun assoc_set :: "string \<Rightarrow> pyval \<Rightarrow> (string \<times> pyval) list \<Rightarrow> (string \<times> pyval) list" where
  "assoc_set k v [] = [(k, v)]"
| "assoc_set k v (p # ps) = (if fst p = k then (k, v) # ps else p # assoc_set k v ps)"

text \<open>
  The constructor of the \<^verbatim>\<open>dotmap\<close> package copies the items of a mapping and turns
  every value that is a \<^verbatim>\<open>dict\<close> into a \<^verbatim>\<open>DotMap\<close> of its own, at any depth.
  An argument that is neither a mapping nor iterable, such as \<^verbatim>\<open>None\<close>, gives the
  empty \<^verbatim>\<open>DotMap\<close>. The wrapper calls it on a \<^verbatim>\<open>dict\<close> or on \<^verbatim>\<open>None\<close> only.
\<close>

primrec to_dotmap :: "pyval \<Rightarrow> pyval" where
  "to_dotmap PNone = PNone"
| "to_dotmap (PInt i) = PInt i"
| "to_dotmap (PStr s) = PStr s"
| "to_dotmap (PDict kvs) = PDotMap (map (map_prod id to_dotmap) kvs)"
| "to_dotmap (PDotMap kvs) = PDotMap (map (map_prod id to_dotmap) kvs)"
| "to_dotmap (PObj attrs) = PObj attrs"

definition DotMap :: "pyval \<Rightarrow> pyval" where
  "DotMap d = (if is_dict d then to_dotmap d else PDotMap [])"

text \<open>
  \<^verbatim>\<open>d.name = v\<close> on a \<^verbatim>\<open>DotMap\<close> stores the value under the key \<open>name\<close>,
  as it is.
\<close>

definition dotmap_setattr :: "pyval \<Rightarrow> string \<Rightarrow> pyval \<Rightarrow> pyval" where
  "dotmap_setattr d name v = PDotMap (assoc_set name v (items d))"

text \<open>
  \<^verbatim>\<open>obj.name\<close>, for the names the wrapper reads (\<^verbatim>\<open>method\<close>, \<^verbatim>\<open>url\<close>,
  \<^verbatim>\<open>path\<close>, \<^verbatim>\<open>body\<close>, \<^verbatim>\<open>status_code\<close>), none of which is a method of
  \<^verbatim>\<open>dict\<close>, \<^verbatim>\<open>str\<close>, \<^verbatim>\<open>int\<close> or \<^verbatim>\<open>DotMap\<close>. The result is the value read
  and the receiver after the read: a \<^verbatim>\<open>DotMap\<close> answers a missing key with a new empty
  \<^verbatim>\<open>DotMap\<close>, which it stores under that key.
\<close>

definition getattr :: "pyval \<Rightarrow> string \<Rightarrow> exn + (pyval \<times> pyval)" where
  "getattr obj name =
     (case obj of
        PObj attrs \<Rightarrow>
          (case map_of attrs name of
             Some v \<Rightarrow> Inr (v, obj)
           | None \<Rightarrow> Inl AttributeError)
      | PDotMap kvs \<Rightarrow>
          (case map_of kvs name of
             Some v \<Rightarrow> Inr (v, obj)
           | None \<Rightarrow> Inr (PDotMap [], PDotMap (kvs @ [(name, PDotMap [])])))
      | _ \<Rightarrow> Inl AttributeError)"

section \<open>The operating system\<close>

text \<open>
  The file system is outside the repository. Its operations are parameters of the model,
  over any type \<open>'fs\<close> of file-system states; each may fail, and may have changed the
  state when it fails. \<open>os_write\<close> is \<^verbatim>\<open>open(path, 'w')\<close> followed by the write,
  \<open>os_append\<close> the same with mode \<^verbatim>\<open>'a'\<close>.
\<close>

record 'fs os_ops =
  os_exists :: "'fs \<Rightarrow> string \<Rightarrow> bool"
  os_makedirs :: "'fs \<Rightarrow> string \<Rightarrow> exn option \<times> 'fs"
  os_write :: "'fs \<Rightarrow> string \<Rightarrow> string \<Rightarrow> exn option \<times> 'fs"
  os_append :: "'fs \<Rightarrow> string \<Rightarrow> string \<Rightarrow> exn option \<times> 'fs"

text \<open>The state the logger acts on: the file system and the lines printed so far.\<close>

record 'fs sys =
  fs :: 'fs
  console :: "string list"

text \<open>\<^verbatim>\<open>os.path.dirname\<close> of \<^verbatim>\<open>posixpath\<close>.\<close>

definition dirname :: "string \<Rightarrow> string" where
  "dirname p =
     (let head = rev (dropWhile (\<lambda>c. c \<noteq> CHR ''/'') (rev p))
      in if head \<noteq> [] \<and> \<not> list_all (\<lambda>c. c = CHR ''/'') head
         then rev (dropWhile (\<lambda>c. c = CHR ''/'') (rev head))
         else head)"

text \<open>The UTF-8 bytes of the note written into a new log file.\<close>

definition created_note :: string where
  "created_note =
     [CHR 0xD0, CHR 0xA1, CHR 0xD0, CHR 0xBE, CHR 0xD0, CHR 0xB7, CHR 0xD0, CHR 0xB4,
      CHR 0xD0, CHR 0xB0, CHR 0xD0, CHR 0xBD, CHR 0x20, CHR 0xD1, CHR 0x84, CHR 0xD0,
      CHR 0xB0, CHR 0xD0, CHR 0xB9, CHR 0xD0, CHR 0xBB, CHR 0x20, CHR 0xD0, CHR 0xBB,
      CHR 0xD0, CHR 0xBE, CHR 0xD0, CHR 0xB3, CHR 0xD0, CHR 0xB3, CHR 0xD0, CHR 0xB8,
      CHR 0xD1, CHR 0x80, CHR 0xD0, CHR 0xBE, CHR 0xD0, CHR 0xB2, CHR 0xD0, CHR 0xB0,
      CHR 0xD0, CHR 0xBD, CHR 0xD0, CHR 0xB8, CHR 0xD1, CHR 0x8F]"

text \<open>
  \<^verbatim>\<open>get_path\<close>: the result and the file system afterwards. Every exception of the
  creation is caught and dropped.
\<close>

definition get_path :: "'fs os_ops \<Rightarrow> logger \<Rightarrow> datetime \<Rightarrow> 'fs \<Rightarrow> bool \<times> 'fs" where
  "get_path os self now s =
     (if \<not> os_exists os s (exit_path self) then
        (case os_makedirs os s (dirname (exit_path self)) of
           (Some e, s1) \<Rightarrow> (True, s1)
         | (None, s1) \<Rightarrow>
             (case os_write os s1 (exit_path self)
                     (''DEBUG'' @ '':    '' @ strftime now @ '' || '' @ created_note @ [newline]) of
                (Some e, s2) \<Rightarrow> (True, s2)
              | (None, s2) \<Rightarrow> (True, s2)))
      else (True, s))"

text \<open>\<^verbatim>\<open>__init__\<close>, with \<^verbatim>\<open>os.getcwd()\<close> as the input \<open>cwd\<close>.\<close>

definition init ::
  "'fs os_ops \<Rightarrow> string \<Rightarrow> datetime \<Rightarrow> string \<Rightarrow> string \<Rightarrow> bool \<Rightarrow> bool \<Rightarrow> 'fs \<Rightarrow> logger \<times> 'fs" where
  "init os cwd now lvl path color wall s =
     (let self = \<lparr>lvl_logging = lvl, exit_path = cwd @ path, color_lvl = color, write_all = wall\<rparr>
      in (self, snd (get_path os self now s)))"

text \<open>
  \<^verbatim>\<open>write_file\<close>: only \<^verbatim>\<open>FileNotFoundError\<close> is caught, and reported on the
  console; any other exception leaves the function.
\<close>

definition write_file :: "'fs os_ops \<Rightarrow> logger \<Rightarrow> string \<Rightarrow> 'fs sys \<Rightarrow> exn option \<times> 'fs sys" where
  "write_file os self msg st =
     (case os_append os (fs st) (exit_path self) msg of
        (None, s1) \<Rightarrow> (None, st\<lparr>fs := s1\<rparr>)
      | (Some FileNotFoundError, s1) \<Rightarrow>
          (None, st\<lparr>fs := s1, console := console st @ [''File Not Found'']\<rparr>)
      | (Some e, s1) \<Rightarrow> (Some e, st\<lparr>fs := s1\<rparr>))"

section \<open>The decorator\<close>

text \<open>
  The wrapped function: its \<^verbatim>\<open>__name__\<close> and what a call with positional and
  keyword arguments gives, a value or an exception. Its own effects are not part of the
  model.
\<close>

record pyfunc =
  f_name :: string
  f_call :: "pyval list \<Rightarrow> (string \<times> pyval) list \<Rightarrow> exn + pyval"

text \<open>The first block of \<^verbatim>\<open>wrapper\<close>: a \<^verbatim>\<open>dict\<close> or \<^verbatim>\<open>None\<close> becomes a \<^verbatim>\<open>DotMap\<close>
  with a \<^verbatim>\<open>status_code\<close>; any other value is kept.\<close>

definition normalize :: "pyval \<Rightarrow> pyval" where
  "normalize result =
     (if is_dict result \<or> result = PNone then
        (let status_code =
               (if result \<noteq> PNone then dict_get result ''status_code'' (PStr ''-'')
                else PInt 200)
         in dotmap_setattr (DotMap result) ''status_code'' status_code)
      else result)"

text \<open>
  The fields of the line: the defaults, replaced when the keyword arguments have the key
  \<^verbatim>\<open>request\<close>. The result carries \<^verbatim>\<open>result\<close> as the read of \<^verbatim>\<open>body\<close> leaves it.
\<close>

definition resolve_fields ::
  "string \<Rightarrow> (string \<times> pyval) list \<Rightarrow> pyval \<Rightarrow> exn + (pyval \<times> pyval \<times> pyval \<times> pyval)" where
  "resolve_fields fname kwargs result =
     (case map_of kwargs ''request'' of
        None \<Rightarrow> Inr (PStr ''-'', PStr fname, PStr ''OK'', result)
      | Some request \<Rightarrow>
          (case getattr request ''method'' of
             Inl e \<Rightarrow> Inl e
           | Inr (method, request1) \<Rightarrow>
               (case getattr request1 ''url'' of
                  Inl e \<Rightarrow> Inl e
                | Inr (u, request2) \<Rightarrow>
                    (case getattr u ''path'' of
                       Inl e \<Rightarrow> Inl e
                     | Inr (path, u1) \<Rightarrow>
                         (case getattr result ''body'' of
                            Inl e \<Rightarrow> Inl e
                          | Inr (body, result1) \<Rightarrow> Inr (method, path, body, result1))))))"

text \<open>
  The choice of \<^verbatim>\<open>type_msg\<close> and the dictionary handed to the formatter.
  \<^verbatim>\<open>result.status_code\<close> is read for the comparison and again for the dictionary.
  Among the values of the model, only the integer 200 is equal to 200.
\<close>

definition log_event ::
  "exn + (pyval \<times> pyval \<times> pyval \<times> pyval) \<Rightarrow> exn + (string \<times> log_data \<times> pyval)" where
  "log_event flds =
     (case flds of
        Inl e \<Rightarrow> Inl e
      | Inr (method, url, msg, result1) \<Rightarrow>
          (case getattr result1 ''status_code'' of
             Inl e \<Rightarrow> Inl e
           | Inr (sc, result2) \<Rightarrow>
               (let type_msg = (if sc \<noteq> PInt 200 then ''error'' else ''info'')
                in case getattr result2 ''status_code'' of
                     Inl e \<Rightarrow> Inl e
                   | Inr (sc2, result3) \<Rightarrow>
                       Inr (type_msg,
                            \<lparr>d_method = method, d_url = url, d_msg = msg, d_status_code = sc2\<rparr>,
                            result3))))"

text \<open>
  The two sinks. Subscripting \<^verbatim>\<open>None\<close> raises \<^verbatim>\<open>TypeError\<close>.
  \<^verbatim>\<open>asyncio.run\<close> runs \<^verbatim>\<open>write_file\<close> to its end before the wrapper goes on.
\<close>

definition emit ::
  "'fs os_ops \<Rightarrow> logger \<Rightarrow> bool \<Rightarrow> bool \<Rightarrow> (string \<times> string) option \<Rightarrow> 'fs sys
    \<Rightarrow> exn option \<times> 'fs sys" where
  "emit os self write_console write_file_p message st =
     (case (if write_console then
              (case message of
                 None \<Rightarrow> (Some TypeError, st)
               | Some (c, f) \<Rightarrow> (None, st\<lparr>console := console st @ [c]\<rparr>))
            else (None, st)) of
        (Some e, st1) \<Rightarrow> (Some e, st1)
      | (None, st1) \<Rightarrow>
          (if write_file_p then
             (case message of
                None \<Rightarrow> (Some TypeError, st1)
              | Some (c, f) \<Rightarrow> write_file os self f st1)
           else (None, st1)))"

text \<open>The rest of \<^verbatim>\<open>wrapper\<close> once the fields are known: classify, format, emit, return.\<close>

definition log_call ::
  "(pyval \<Rightarrow> string) \<Rightarrow> 'fs os_ops \<Rightarrow> logger \<Rightarrow> bool \<Rightarrow> bool \<Rightarrow> datetime \<Rightarrow> datetime
    \<Rightarrow> exn + (pyval \<times> pyval \<times> pyval \<times> pyval) \<Rightarrow> 'fs sys \<Rightarrow> (exn + pyval) \<times> 'fs sys" where
  "log_call rnd os self write_console write_file_p t1 t2 flds st =
     (case log_event flds of
        Inl e \<Rightarrow> (Inl e, st)
      | Inr (type_msg, data, result) \<Rightarrow>
          (case schame_msg rnd self t1 t2 type_msg data of
             Inl e \<Rightarrow> (Inl e, st)
           | Inr message \<Rightarrow>
               (case emit os self write_console write_file_p message st of
                  (Some e, st1) \<Rightarrow> (Inl e, st1)
                | (None, st1) \<Rightarrow> (Inr result, st1))))"

text \<open>
  \<^verbatim>\<open>wrapper\<close>, for the logger \<open>self\<close> and the flags of \<^verbatim>\<open>write\<close>. An exception of
  the wrapped function is not caught.
\<close>

definition wrapper ::
  "(pyval \<Rightarrow> string) \<Rightarrow> 'fs os_ops \<Rightarrow> logger \<Rightarrow> bool \<Rightarrow> bool \<Rightarrow> pyfunc \<Rightarrow> datetime \<Rightarrow> datetime
    \<Rightarrow> pyval list \<Rightarrow> (string \<times> pyval) list \<Rightarrow> 'fs sys \<Rightarrow> (exn + pyval) \<times> 'fs sys" where
  "wrapper rnd os self write_console write_file_p func t1 t2 args kwargs st =
     (case f_call func args kwargs of
        Inl e \<Rightarrow> (Inl e, st)
      | Inr r \<Rightarrow>
          (let result = normalize r
           in if \<not> write_all self then (Inr result, st)
              else log_call rnd os self write_console write_file_p t1 t2
                     (resolve_fields (f_name func) kwargs result) st))"

section \<open>An in-memory file system and sample inputs\<close>

text \<open>
  A small instance of the operating system, to run the model: files with their contents
  and a list of directories. A file can be opened where its directory exists.
\<close>

record memfs =
  m_files :: "(string \<times> string) list"
  m_dirs :: "string list"

definition mem_exists :: "memfs \<Rightarrow> string \<Rightarrow> bool" where
  "mem_exists s p = (map_of (m_files s) p \<noteq> None \<or> p \<in> set (m_dirs s))"

definition mem_makedirs :: "memfs \<Rightarrow> string \<Rightarrow> exn option \<times> memfs" where
  "mem_makedirs s d =
     (if map_of (m_files s) d \<noteq> None then (Some OSError, s)
      else (None, s\<lparr>m_dirs := d # m_dirs s\<rparr>))"

definition mem_write :: "memfs \<Rightarrow> string \<Rightarrow> string \<Rightarrow> exn option \<times> memfs" where
  "mem_write s p txt =
     (if dirname p \<in> set (m_dirs s) then (None, s\<lparr>m_files := (p, txt) # filter (\<lambda>q. fst q \<noteq> p) (m_files s)\<rparr>)
      else (Some FileNotFoundError, s))"

definition mem_append :: "memfs \<Rightarrow> string \<Rightarrow> string \<Rightarrow> exn option \<times> memfs" where
  "mem_append s p txt =
     (if dirname p \<in> set (m_dirs s)
      then (None, s\<lparr>m_files := (p, (case map_of (m_files s) p of None \<Rightarrow> [] | Some old \<Rightarrow> old) @ txt)
                                 # filter (\<lambda>q. fst q \<noteq> p) (m_files s)\<rparr>)
      else (Some FileNotFoundError, s))"

definition mem_os :: "memfs os_ops" where
  "mem_os = \<lparr>os_exists = mem_exists, os_makedirs = mem_makedirs,
             os_write = mem_write, os_append = mem_append\<rparr>"

text \<open>An operating system on which every creation fails.\<close>

definition denying_os :: "memfs os_ops" where
  "denying_os = \<lparr>os_exists = mem_exists, os_makedirs = (\<lambda>s d. (Some OSError, s)),
                 os_write = (\<lambda>s p txt. (Some OSError, s)),
                 os_append = (\<lambda>s p txt. (Some OSError, s))\<rparr>"

definition sample_logger :: logger where
  "sample_logger = \<lparr>lvl_logging = ''info'', exit_path = ''/srv/log/file.log'',
                    color_lvl = False, write_all = True\<rparr>"

definition sample_time :: datetime where
  "sample_time = \<lparr>dt_year = 2024, dt_month = 3, dt_day = 7, dt_hour = 9, dt_minute = 5\<rparr>"

definition sample_sys :: "memfs sys" where
  "sample_sys = \<lparr>fs = \<lparr>m_files = [(''/srv/log/file.log'', ''head'')], m_dirs = [''/srv/log'']\<rparr>,
                 console = []\<rparr>"

definition sample_request :: pyval where
  "sample_request = PObj [(''method'', PStr ''GET''), (''url'', PObj [(''path'', PStr ''/items'')]),
                          (''body'', PStr ''{}'')]"

definition no_repr :: "pyval \<Rightarrow> string" where
  "no_repr v = ''<object>''"

text \<open>Sample functions: one returns a fixed value, one returns its first positional argument.\<close>

definition returning :: "string \<Rightarrow> pyval \<Rightarrow> pyfunc" where
  "returning name v = \<lparr>f_name = name, f_call = (\<lambda>args kwargs. Inr v)\<rparr>"

definition sample_data :: log_data where
  "sample_data = \<lparr>d_method = PStr ''-'', d_url = PStr ''ping'', d_msg = PStr ''OK'',
                  d_status_code = PInt 200\<rparr>"

text \<open>
  Sample replies of a wrapped function, the lines they give under the sample clock, and the
  sample system after one such line went to both sinks.
\<close>

definition sample_reply_404 :: pyval where
  "sample_reply_404 = PDict [(''status_code'', PInt 404), (''detail'', PStr ''not found'')]"

definition sample_response :: pyval where
  "sample_response = PObj [(''status_code'', PInt 200), (''body'', PStr ''hi'')]"

definition sample_info_console :: string where
  "sample_info_console =
     OKGREEN @ ''INFO'' @ ENDC @ '':     2024-03-07 09:05 ||'' @
     WHITE @ BOLD @ ''   -    '' @ ENDC @ ''||'' @
     WHITE @ BOLD @ ''          ping           '' @ ENDC @ ''||'' @
     OKGREEN @ ''  200  || OK'' @ ENDC"

definition sample_info_file :: string where
  "sample_info_file =
     ''INFO:     2024-03-07 09:05 ||   -    ||          ping           ||  200  || OK'' @ [newline]"

definition sample_error_console :: string where
  "sample_error_console =
     FAIL @ ''ERROR'' @ ENDC @ '':    2024-03-07 09:05 ||'' @
     WHITE @ BOLD @ ''   -    '' @ ENDC @ ''||'' @
     WHITE @ BOLD @ ''          find           '' @ ENDC @ ''||'' @
     FAIL @ ''  404  || OK'' @ ENDC"

definition sample_error_file :: string where
  "sample_error_file =
     ''ERROR:    2024-03-07 09:05 ||   -    ||          find           ||  404  || OK'' @ [newline]"

definition sample_get_console :: string where
  "sample_get_console =
     OKGREEN @ ''INFO'' @ ENDC @ '':     2024-03-07 09:05 ||'' @
     WHITE @ BOLD @ ''  GET   '' @ ENDC @ ''||'' @
     WHITE @ BOLD @ ''         /items          '' @ ENDC @ ''||'' @
     OKGREEN @ ''  200  || hi'' @ ENDC"

definition sample_get_file :: string where
  "sample_get_file =
     ''INFO:     2024-03-07 09:05 ||  GET   ||         /items          ||  200  || hi'' @ [newline]"

definition logged :: "string \<Rightarrow> string \<Rightarrow> memfs sys" where
  "logged c f = \<lparr>fs = \<lparr>m_files = [(''/srv/log/file.log'', ''head'' @ f)], m_dirs = [''/srv/log'']\<rparr>,
                 console = [c]\<rparr>"

text \<open>
  A request object without \<^verbatim>\<open>body\<close>, the line it gives, and the line of a reply
  without \<^verbatim>\<open>status_code\<close>.
\<close>

definition sample_bare_request :: pyval where
  "sample_bare_request = PObj [(''method'', PStr ''GET''), (''url'', PObj [(''path'', PStr ''/items'')])]"

definition sample_bare_console :: string where
  "sample_bare_console =
     OKGREEN @ ''INFO'' @ ENDC @ '':     2024-03-07 09:05 ||'' @
     WHITE @ BOLD @ ''  GET   '' @ ENDC @ ''||'' @
     WHITE @ BOLD @ ''         /items          '' @ ENDC @ ''||'' @
     OKGREEN @ ''  200  || <object>'' @ ENDC"

definition sample_bare_file :: string where
  "sample_bare_file =
     ''INFO:     2024-03-07 09:05 ||  GET   ||         /items          ||  200  || <object>'' @
     [newline]"

definition sample_dash_console :: string where
  "sample_dash_console =
     FAIL @ ''ERROR'' @ ENDC @ '':    2024-03-07 09:05 ||'' @
     WHITE @ BOLD @ ''   -    '' @ ENDC @ ''||'' @
     WHITE @ BOLD @ ''          find           '' @ ENDC @ ''||'' @
     FAIL @ ''   -   || OK'' @ ENDC"

definition sample_dash_file :: string where
  "sample_dash_file =
     ''ERROR:    2024-03-07 09:05 ||   -    ||          find           ||   -   || OK'' @ [newline]"

section \<open>The formatter\<close>

subsection \<open>Escape characters\<close>

lemma has_ansi_esc: "has_ansi s \<Longrightarrow> ESC \<in> set s"
  by (induction s rule: has_ansi.induct) auto

lemma digit_char_not_esc: "d < 10 \<Longrightarrow> digit_char d \<noteq> ESC"
proof -
  assume "d < 10"
  then have "d \<in> {0, 1, 2, 3, 4, 5, 6, 7, 8, 9}" by auto
  then show ?thesis by (auto simp: digit_char_def ESC_def)
qed

lemma esc_digits: "ESC \<notin> set (digits n)"
proof (induction n rule: digits.induct)
  case (1 n)
  show ?case
  proof (cases "n < 10")
    case True
    then show ?thesis using digit_char_not_esc [of n] by (simp add: digits.simps [of n])
  next
    case False
    have "n mod 10 < 10" by simp
    then have "digit_char (n mod 10) \<noteq> ESC" by (rule digit_char_not_esc)
    with False 1 show ?thesis by (auto simp add: digits.simps [of n])
  qed
qed

lemma esc_center: "ESC \<in> set (center w s) \<longleftrightarrow> ESC \<in> set s"
  by (auto simp: center_def Let_def ESC_def)

lemma esc_zpad: "ESC \<in> set (zpad w s) \<longleftrightarrow> ESC \<in> set s"
  by (auto simp: zpad_def ESC_def)

lemma esc_strftime: "ESC \<notin> set (strftime t)"
  by (simp add: strftime_def esc_zpad esc_digits) (simp add: ESC_def)

text \<open>
  Escape sequences in a concatenation: a text without the escape character adds none, and
  a sequence cannot start at the end of a text that is followed by a character other than
  \<^verbatim>\<open>[\<close>. So padding and the fixed parts of the file line neither add nor hide one.
\<close>

lemma has_ansi_Cons: "c \<noteq> ESC \<Longrightarrow> has_ansi (c # xs) = has_ansi xs"
  by (cases xs) auto

lemma has_ansi_free_left: "ESC \<notin> set a \<Longrightarrow> has_ansi (a @ b) = has_ansi b"
  by (induction a) (auto simp: has_ansi_Cons)

lemma has_ansi_free: "ESC \<notin> set a \<Longrightarrow> \<not> has_ansi a"
  using has_ansi_esc by blast

lemma has_ansi_guard: "c \<noteq> CHR ''['' \<Longrightarrow> has_ansi (a @ c # b) = (has_ansi a \<or> has_ansi (c # b))"
  by (induction a rule: has_ansi.induct) auto

lemma has_ansi_center: "has_ansi (center w s) = has_ansi s"
proof (cases "w \<le> length s")
  case True
  then show ?thesis by (simp add: center_def)
next
  case False
  define l where "l = (w - length s) div 2"
  define k where "k = w - length s - l"
  have c: "center w s = replicate l (CHR '' '') @ s @ replicate k (CHR '' '')"
    using False by (simp add: center_def Let_def l_def k_def)
  have sp: "ESC \<notin> set (replicate n (CHR '' ''))" for n by (auto simp: ESC_def)
  have "has_ansi (s @ replicate k (CHR '' '')) = has_ansi s"
  proof (cases k)
    case 0
    then show ?thesis by simp
  next
    case (Suc j)
    have "has_ansi (s @ CHR '' '' # replicate j (CHR '' '')) =
            (has_ansi s \<or> has_ansi (CHR '' '' # replicate j (CHR '' '')))"
      by (rule has_ansi_guard) simp
    moreover have "\<not> has_ansi (CHR '' '' # replicate j (CHR '' ''))"
      using sp [of "Suc j"] by (intro has_ansi_free) simp
    ultimately show ?thesis using Suc by simp
  qed
  then show ?thesis unfolding c using sp by (simp add: has_ansi_free_left)
qed

lemma has_ansi_file_line:
  assumes "ESC \<notin> set p"
  shows "has_ansi (p @ '' ||'' @ m @ ''||'' @ u @ ''|| '' @ s @ '' || '' @ t @ [newline]) =
           (has_ansi m \<or> has_ansi u \<or> has_ansi s \<or> has_ansi t)"
proof -
  have bar: "CHR ''|'' \<noteq> ESC" "CHR '' '' \<noteq> ESC" "newline \<noteq> ESC" by (simp_all add: ESC_def newline_def)
  have t: "has_ansi (t @ [newline]) = has_ansi t"
    using has_ansi_guard [of newline t "[]"] by (simp add: newline_def)
  have s: "has_ansi (s @ '' || '' @ t @ [newline]) = (has_ansi s \<or> has_ansi t)"
    using has_ansi_guard [of "CHR '' ''" s "''|| '' @ t @ [newline]"] t bar
    by (simp add: has_ansi_Cons)
  have u: "has_ansi (u @ ''|| '' @ s @ '' || '' @ t @ [newline]) = (has_ansi u \<or> has_ansi s \<or> has_ansi t)"
    using has_ansi_guard [of "CHR ''|''" u "''| '' @ s @ '' || '' @ t @ [newline]"] s bar
    by (simp add: has_ansi_Cons)
  have m: "has_ansi (m @ ''||'' @ u @ ''|| '' @ s @ '' || '' @ t @ [newline]) =
             (has_ansi m \<or> has_ansi u \<or> has_ansi s \<or> has_ansi t)"
    using has_ansi_guard [of "CHR ''|''" m "''|'' @ u @ ''|| '' @ s @ '' || '' @ t @ [newline]"] u bar
    by (simp add: has_ansi_Cons)
  show ?thesis
    using assms m bar by (simp add: has_ansi_free_left has_ansi_Cons)
qed

subsection \<open>The shape of a formatted line\<close>

lemma fmt_center_Inr: "fmt_center w v = Inr x \<Longrightarrow> x = center w (py_str rnd v)"
  by (auto simp: fmt_center_def py_str_def split: pyval.splits)

lemma padded_fields_Inr:
  assumes "padded_fields data = Inr (m, u, s)"
  shows "m = center 8 (py_str rnd (d_method data))"
    and "u = center 25 (py_str rnd (d_url data))"
    and "s = center 5 (py_str rnd (d_status_code data))"
  using assms by (auto simp: padded_fields_def split: sum.splits dest: fmt_center_Inr)

lemma schame_msg_Some:
  assumes "schame_msg rnd self t1 t2 type_msg data = Inr (Some (c, f))"
  obtains m u s where "padded_fields data = Inr (m, u, s)"
    and "type_msg = ''info'' \<or> type_msg = ''error''"
    and "f = (if type_msg = ''info'' then ''INFO:     '' else ''ERROR:    '') @ strftime t2 @
               '' ||'' @ m @ ''||'' @ u @ ''|| '' @ s @ '' || '' @ py_str rnd (d_msg data) @
               [newline]"
    and "c = (if type_msg = ''info'' then OKGREEN @ ''INFO'' @ ENDC @ '':     ''
              else FAIL @ ''ERROR'' @ ENDC @ '':    '') @
               strftime t1 @ '' ||'' @ WHITE @ BOLD @ m @ ENDC @ ''||'' @
               WHITE @ BOLD @ u @ ENDC @ ''||'' @
               (if type_msg = ''info'' then OKGREEN else FAIL) @ '' '' @ s @ '' || '' @
               py_str rnd (d_msg data) @ ENDC"
  using assms by (auto simp: schame_msg_def split: if_splits sum.splits)

text \<open>Strings and integers can be formatted, so a line of such fields is produced.\<close>

lemma schame_msg_produces:
  assumes "type_msg = ''info'' \<or> type_msg = ''error''"
    and "d_method data = PStr m" and "d_url data = PStr u"
    and "d_status_code data = PInt i \<or> d_status_code data = PStr t"
  shows "\<exists>c f. schame_msg rnd self t1 t2 type_msg data = Inr (Some (c, f))"
  using assms by (auto simp: schame_msg_def padded_fields_def fmt_center_def)

lemma sample_info_line:
  "schame_msg no_repr sample_logger sample_time sample_time ''info'' sample_data =
     Inr (Some
       (OKGREEN @ ''INFO'' @ ENDC @ '':     2024-03-07 09:05 ||'' @
        WHITE @ BOLD @ ''   -    '' @ ENDC @ ''||'' @
        WHITE @ BOLD @ ''          ping           '' @ ENDC @ ''||'' @
        OKGREEN @ ''  200  || OK'' @ ENDC,
        ''INFO:     2024-03-07 09:05 ||   -    ||          ping           ||  200  || OK'' @
        [newline]))"
  by code_simp

subsection \<open>Kinds without a format\<close>

text \<open>
  C7. For every kind other than \<^verbatim>\<open>info\<close> and \<^verbatim>\<open>error\<close>, the accepted kinds
  \<^verbatim>\<open>warning\<close> and \<^verbatim>\<open>debug\<close> among them, \<^verbatim>\<open>__schame_msg__\<close> returns
  \<^verbatim>\<open>None\<close>: no text is produced and nothing is raised, whatever the fields are.
\<close>

theorem schame_msg_other_kinds:
  "type_msg \<noteq> ''info'' \<Longrightarrow> type_msg \<noteq> ''error'' \<Longrightarrow>
   schame_msg rnd self t1 t2 type_msg data = Inr None"
  by (simp add: schame_msg_def)

theorem schame_msg_other_kinds_witness:
  "schame_msg no_repr sample_logger sample_time sample_time ''warning'' sample_data = Inr None \<and>
   schame_msg no_repr sample_logger sample_time sample_time ''debug'' sample_data = Inr None \<and>
   schame_msg no_repr sample_logger sample_time sample_time ''trace'' sample_data = Inr None"
  using
    schame_msg_other_kinds [of "''warning''" no_repr sample_logger sample_time sample_time sample_data]
    schame_msg_other_kinds [of "''debug''" no_repr sample_logger sample_time sample_time sample_data]
    schame_msg_other_kinds [of "''trace''" no_repr sample_logger sample_time sample_time sample_data]
  by simp

subsection \<open>The file text\<close>

text \<open>
  C4, as the code has it. Whenever \<^verbatim>\<open>__schame_msg__\<close> produces a line, the file text
  ends in a newline, and it holds an escape sequence exactly when the text of the method,
  of the target, of the status code or of the message holds one: the formatter adds none
  to the file text, and it removes none.
\<close>

theorem file_text_plain:
  assumes "schame_msg rnd self t1 t2 type_msg data = Inr (Some (c, f))"
  shows "f \<noteq> [] \<and> last f = newline \<and>
         (has_ansi f \<longleftrightarrow>
            has_ansi (py_str rnd (d_method data)) \<or> has_ansi (py_str rnd (d_url data)) \<or>
            has_ansi (py_str rnd (d_status_code data)) \<or> has_ansi (py_str rnd (d_msg data)))"
proof -
  from assms obtain m u s where pf: "padded_fields data = Inr (m, u, s)"
    and f: "f = (if type_msg = ''info'' then ''INFO:     '' else ''ERROR:    '') @ strftime t2 @
                  '' ||'' @ m @ ''||'' @ u @ ''|| '' @ s @ '' || '' @ py_str rnd (d_msg data) @
                  [newline]"
    by (elim schame_msg_Some)
  have nl: "f \<noteq> [] \<and> last f = newline" unfolding f by simp
  define p where "p = (if type_msg = ''info'' then ''INFO:     '' else ''ERROR:    '') @ strftime t2"
  have p: "ESC \<notin> set p" using esc_strftime [of t2] by (auto simp: p_def ESC_def)
  have f': "f = p @ '' ||'' @ m @ ''||'' @ u @ ''|| '' @ s @ '' || '' @ py_str rnd (d_msg data) @ [newline]"
    unfolding f p_def by simp
  have "has_ansi f = (has_ansi m \<or> has_ansi u \<or> has_ansi s \<or> has_ansi (py_str rnd (d_msg data)))"
    unfolding f' using p by (rule has_ansi_file_line)
  moreover have "has_ansi m = has_ansi (py_str rnd (d_method data))"
    "has_ansi u = has_ansi (py_str rnd (d_url data))"
    "has_ansi s = has_ansi (py_str rnd (d_status_code data))"
    using padded_fields_Inr [OF pf, of rnd] by (simp_all add: has_ansi_center)
  ultimately show ?thesis using nl by simp
qed

theorem file_text_plain_witness:
  "last (''INFO:     2024-03-07 09:05 ||   -    ||          ping           ||  200  || OK'' @
         [newline]) = newline \<and>
   \<not> has_ansi (''INFO:     2024-03-07 09:05 ||   -    ||          ping           ||  200  || OK'' @
               [newline])"
  using file_text_plain [OF sample_info_line]
  by (simp add: sample_data_def py_str_def str_int_def digits.simps digit_char_def ESC_def)

text \<open>
  The claim as it is stated, for any message, fails: a message that holds the sequence
  \<^verbatim>\<open>FAIL\<close> gives a file text that holds it.
\<close>

theorem file_text_escape_counterexample:
  "schame_msg no_repr sample_logger sample_time sample_time ''info''
     \<lparr>d_method = PStr ''-'', d_url = PStr ''ping'', d_msg = PStr (FAIL @ ''x''),
      d_status_code = PInt 200\<rparr> =
     Inr (Some
       (OKGREEN @ ''INFO'' @ ENDC @ '':     2024-03-07 09:05 ||'' @
        WHITE @ BOLD @ ''   -    '' @ ENDC @ ''||'' @
        WHITE @ BOLD @ ''          ping           '' @ ENDC @ ''||'' @
        OKGREEN @ ''  200  || '' @ FAIL @ ''x'' @ ENDC,
        ''INFO:     2024-03-07 09:05 ||   -    ||          ping           ||  200  || '' @
        FAIL @ ''x'' @ [newline])) \<and>
   has_ansi (''INFO:     2024-03-07 09:05 ||   -    ||          ping           ||  200  || '' @
             FAIL @ ''x'' @ [newline])"
  by code_simp

subsection \<open>The console text\<close>

lemma console_text_has_ansi:
  assumes "schame_msg rnd self t1 t2 type_msg data = Inr (Some (c, f))"
  shows "has_ansi c"
  using assms by (elim schame_msg_Some) (auto simp: OKGREEN_def FAIL_def)

text \<open>
  C3. The claim wants escape codes in the console text only when \<^verbatim>\<open>color_lvl\<close> is
  set. The formatter never reads the flag: for the sample logger, whose \<^verbatim>\<open>color_lvl\<close>
  is \<^verbatim>\<open>False\<close>, the console text of an \<^verbatim>\<open>info\<close> line starts with the code
  \<^verbatim>\<open>OKGREEN\<close>.
\<close>

theorem console_text_colored_without_color_lvl:
  "\<not> color_lvl sample_logger \<and>
   schame_msg no_repr sample_logger sample_time sample_time ''info'' sample_data =
     Inr (Some
       (OKGREEN @ ''INFO'' @ ENDC @ '':     2024-03-07 09:05 ||'' @
        WHITE @ BOLD @ ''   -    '' @ ENDC @ ''||'' @
        WHITE @ BOLD @ ''          ping           '' @ ENDC @ ''||'' @
        OKGREEN @ ''  200  || OK'' @ ENDC,
        ''INFO:     2024-03-07 09:05 ||   -    ||          ping           ||  200  || OK'' @
        [newline])) \<and>
   has_ansi
     (OKGREEN @ ''INFO'' @ ENDC @ '':     2024-03-07 09:05 ||'' @
      WHITE @ BOLD @ ''   -    '' @ ENDC @ ''||'' @
      WHITE @ BOLD @ ''          ping           '' @ ENDC @ ''||'' @
      OKGREEN @ ''  200  || OK'' @ ENDC)"
  by code_simp

section \<open>The decorator: values and attributes\<close>

lemma map_of_assoc_set: "map_of (assoc_set k v kvs) k = Some v"
  by (induction kvs) auto

lemma getattr_stable: "getattr x n = Inr (v, x') \<Longrightarrow> getattr x' n = Inr (v, x')"
  by (auto simp: getattr_def split: pyval.splits option.splits)

lemma getattr_error: "getattr x n = Inl e \<Longrightarrow> e = AttributeError"
  by (auto simp: getattr_def split: pyval.splits option.splits)


subsection \<open>Normalisation of the return value\<close>

text \<open>
  What the first block of the wrapper computes: 200 for \<^verbatim>\<open>None\<close>, the value under
  the key \<^verbatim>\<open>status_code\<close> for a dictionary that has the key, the string
  \<^verbatim>\<open>'-'\<close> for a dictionary that has not.
\<close>

lemma normalize_status_code:
  assumes "is_dict r \<or> r = PNone"
  shows "getattr (normalize r) ''status_code'' =
           Inr (if r = PNone then PInt 200
                else (case map_of (items r) ''status_code'' of Some v \<Rightarrow> v | None \<Rightarrow> PStr ''-''),
                normalize r)"
  using assms
  by (auto simp: normalize_def dotmap_setattr_def getattr_def map_of_assoc_set dict_get_def Let_def)

text \<open>
  C1. The claim, like the docstring of \<^verbatim>\<open>write\<close> (the status is 200 or the one of the
  returned dictionary), gives the status 200 to a dictionary without the key
  \<^verbatim>\<open>status_code\<close>. The code gives it the string \<^verbatim>\<open>'-'\<close>, which is not 200, so
  the call is logged as an \<^verbatim>\<open>ERROR\<close> line.
\<close>

theorem normalize_missing_key_gives_dash:
  "getattr (normalize (PDict [(''detail'', PStr ''not found'')])) ''status_code'' =
     Inr (PStr ''-'', PDotMap [(''detail'', PStr ''not found''), (''status_code'', PStr ''-'')]) \<and>
   PStr ''-'' \<noteq> PInt 200 \<and>
   wrapper no_repr mem_os sample_logger True True
     (returning ''find'' (PDict [(''detail'', PStr ''not found'')]))
     sample_time sample_time [] [] sample_sys =
   (Inr (PDotMap [(''detail'', PStr ''not found''), (''status_code'', PStr ''-'')]),
    logged sample_dash_console sample_dash_file)"
  by code_simp

section \<open>The log file\<close>

text \<open>
  C8. \<^verbatim>\<open>get_path\<close> returns \<^verbatim>\<open>True\<close> in every case, also when the creation of
  the directories or of the file fails, and it leaves the file system as it is when the path
  of the log file exists.
\<close>

theorem get_path_idempotent:
  "fst (get_path os self now s) = True \<and>
   (os_exists os s (exit_path self) \<longrightarrow> get_path os self now s = (True, s))"
  by (simp add: get_path_def split: prod.splits option.splits)

theorem get_path_idempotent_witness:
  "get_path mem_os sample_logger sample_time (fs sample_sys) = (True, fs sample_sys) \<and>
   fst (get_path denying_os sample_logger sample_time \<lparr>m_files = [], m_dirs = []\<rparr>) = True"
  using get_path_idempotent [of mem_os sample_logger sample_time "fs sample_sys"]
    get_path_idempotent [of denying_os sample_logger sample_time "\<lparr>m_files = [], m_dirs = []\<rparr>"]
  by (simp add: mem_os_def mem_exists_def sample_logger_def sample_sys_def)

section \<open>The wrapper\<close>

lemma resolve_fields_error: "resolve_fields fname kwargs result = Inl e \<Longrightarrow> e = AttributeError"
  unfolding resolve_fields_def
  by (auto split: option.splits sum.splits prod.splits intro: getattr_error)


lemma resolve_fields_default:
  "map_of kwargs ''request'' = None \<Longrightarrow>
   resolve_fields fname kwargs result = Inr (PStr ''-'', PStr fname, PStr ''OK'', result)"
  by (simp add: resolve_fields_def)

lemma log_event_Inr:
  assumes "log_event flds = Inr (k, data, res)"
  obtains mth tgt msg r1 sc where "flds = Inr (mth, tgt, msg, r1)"
    and "data = \<lparr>d_method = mth, d_url = tgt, d_msg = msg, d_status_code = sc\<rparr>"
    and "k = (if sc \<noteq> PInt 200 then ''error'' else ''info'')"
    and "getattr r1 ''status_code'' = Inr (sc, res)"
    and "getattr res ''status_code'' = Inr (sc, res)"
proof -
  from assms obtain mth tgt msg r1 where fl: "flds = Inr (mth, tgt, msg, r1)"
    by (cases flds) (auto simp: log_event_def)
  from assms fl obtain sc r2 where g1: "getattr r1 ''status_code'' = Inr (sc, r2)"
    by (auto simp: log_event_def split: sum.splits)
  have g2: "getattr r2 ''status_code'' = Inr (sc, r2)" using g1 by (rule getattr_stable)
  from assms fl g1 g2 have "k = (if sc \<noteq> PInt 200 then ''error'' else ''info'')"
    and "data = \<lparr>d_method = mth, d_url = tgt, d_msg = msg, d_status_code = sc\<rparr>"
    and "res = r2"
    by (simp_all add: log_event_def Let_def)
  with fl g1 g2 that show ?thesis by simp
qed

lemma schame_msg_kind_Inr:
  assumes "schame_msg rnd self t1 t2 (if b then ''error'' else ''info'') data = Inr message"
  shows "\<exists>c f. message = Some (c, f)"
  using assms by (auto simp: schame_msg_def split: if_splits sum.splits)

lemma log_call_Inr:
  assumes "log_call rnd os self tc tf t1 t2 flds st = (Inr v, st')"
  obtains mth tgt msg r1 sc c f where "flds = Inr (mth, tgt, msg, r1)"
    and "getattr r1 ''status_code'' = Inr (sc, v)"
    and "getattr v ''status_code'' = Inr (sc, v)"
    and "schame_msg rnd self t1 t2 (if sc \<noteq> PInt 200 then ''error'' else ''info'')
           \<lparr>d_method = mth, d_url = tgt, d_msg = msg, d_status_code = sc\<rparr> = Inr (Some (c, f))"
    and "emit os self tc tf (Some (c, f)) st = (None, st')"
proof -
  from assms obtain k data res where le: "log_event flds = Inr (k, data, res)"
    by (auto simp: log_call_def split: sum.splits)
  from le obtain mth tgt msg r1 sc where fl: "flds = Inr (mth, tgt, msg, r1)"
    and d: "data = \<lparr>d_method = mth, d_url = tgt, d_msg = msg, d_status_code = sc\<rparr>"
    and k: "k = (if sc \<noteq> PInt 200 then ''error'' else ''info'')"
    and g1: "getattr r1 ''status_code'' = Inr (sc, res)"
    and g2: "getattr res ''status_code'' = Inr (sc, res)"
    by (rule log_event_Inr)
  from assms le obtain message where sm: "schame_msg rnd self t1 t2 k data = Inr message"
    by (auto simp: log_call_def split: sum.splits)
  then obtain c f where m: "message = Some (c, f)" unfolding k using schame_msg_kind_Inr by blast
  from assms le sm have em: "emit os self tc tf message st = (None, st')" and v: "v = res"
    by (auto simp: log_call_def split: prod.splits option.splits)
  show ?thesis
  proof (rule that)
    show "flds = Inr (mth, tgt, msg, r1)" by (rule fl)
    show "getattr r1 ''status_code'' = Inr (sc, v)" using g1 v by simp
    show "getattr v ''status_code'' = Inr (sc, v)" using g2 v by simp
    show "schame_msg rnd self t1 t2 (if sc \<noteq> PInt 200 then ''error'' else ''info'')
           \<lparr>d_method = mth, d_url = tgt, d_msg = msg, d_status_code = sc\<rparr> = Inr (Some (c, f))"
      using sm m k d by simp
    show "emit os self tc tf (Some (c, f)) st = (None, st')" using em m by simp
  qed
qed

lemma sample_logger_enabled: "write_all sample_logger"
  by (simp add: sample_logger_def)

text \<open>
  The sample runs: a reply with the status 404, \<^verbatim>\<open>None\<close> with and without a request
  among the other arguments, a response object with the request under the key
  \<^verbatim>\<open>request\<close>.
\<close>

lemma run_find:
  "wrapper no_repr mem_os sample_logger True True (returning ''find'' sample_reply_404)
     sample_time sample_time [] [] sample_sys =
   (Inr (PDotMap [(''status_code'', PInt 404), (''detail'', PStr ''not found'')]),
    logged sample_error_console sample_error_file)"
  by code_simp

lemma run_plain:
  "wrapper no_repr mem_os sample_logger True True (returning ''ping'' PNone)
     sample_time sample_time [] [] sample_sys =
   (Inr (PDotMap [(''status_code'', PInt 200)]), logged sample_info_console sample_info_file)"
  by code_simp

lemma run_positional:
  "log_call no_repr mem_os sample_logger True True sample_time sample_time
     (Inr (PStr ''-'', PStr ''ping'', PStr ''OK'', PDotMap [(''status_code'', PInt 200)])) sample_sys =
   (Inr (PDotMap [(''status_code'', PInt 200)]), logged sample_info_console sample_info_file)"
  by code_simp

lemma run_get:
  "wrapper no_repr mem_os sample_logger True True (returning ''ping'' sample_response)
     sample_time sample_time [] [(''request'', sample_request)] sample_sys =
   (Inr sample_response, logged sample_get_console sample_get_file)"
  by code_simp

subsection \<open>Logging switched off\<close>

text \<open>
  C5. With \<^verbatim>\<open>write_all\<close> unset, the wrapper returns the normalised result of the
  wrapped function (or passes its exception on) and leaves the console and the file system
  as they were: nothing is printed, nothing is appended.
\<close>

theorem wrapper_disabled:
  "\<not> write_all self \<Longrightarrow>
   wrapper rnd os self tc tf func t1 t2 args kwargs st =
     (case f_call func args kwargs of Inl e \<Rightarrow> Inl e | Inr r \<Rightarrow> Inr (normalize r), st)"
  by (simp add: wrapper_def Let_def split: sum.splits)

theorem wrapper_disabled_witness:
  "wrapper no_repr mem_os (sample_logger\<lparr>write_all := False\<rparr>) True True (returning ''ping'' PNone)
     sample_time sample_time [] [] sample_sys = (Inr (PDotMap [(''status_code'', PInt 200)]), sample_sys)"
  using wrapper_disabled [of "sample_logger\<lparr>write_all := False\<rparr>" no_repr mem_os True True
      "returning ''ping'' PNone" sample_time sample_time "[]" "[]" sample_sys]
  by (simp add: sample_logger_def returning_def normalize_def is_dict_def items_def DotMap_def
      dotmap_setattr_def)

subsection \<open>The kind of the line\<close>

text \<open>
  C2. With \<^verbatim>\<open>write_all\<close> set, a call of the wrapper that returns has sent to the
  sinks the line that \<^verbatim>\<open>__schame_msg__\<close> makes for the kind \<^verbatim>\<open>error\<close> when the
  \<^verbatim>\<open>status_code\<close> of the returned result is not 200, and for the kind \<^verbatim>\<open>info\<close>
  when it is 200.
\<close>

theorem wrapper_kind:
  assumes "write_all self"
    and "wrapper rnd os self tc tf func t1 t2 args kwargs st = (Inr v, st')"
  shows "\<exists>sc data c f. getattr v ''status_code'' = Inr (sc, v) \<and> d_status_code data = sc \<and>
           schame_msg rnd self t1 t2 (if sc \<noteq> PInt 200 then ''error'' else ''info'') data
             = Inr (Some (c, f)) \<and>
           emit os self tc tf (Some (c, f)) st = (None, st')"
proof -
  from assms obtain r where "f_call func args kwargs = Inr r"
    and lc: "log_call rnd os self tc tf t1 t2 (resolve_fields (f_name func) kwargs (normalize r)) st = (Inr v, st')"
    by (auto simp: wrapper_def Let_def split: sum.splits)
  from lc obtain mth tgt msg r1 sc c f where
    "resolve_fields (f_name func) kwargs (normalize r) = Inr (mth, tgt, msg, r1)"
    "getattr v ''status_code'' = Inr (sc, v)"
    "schame_msg rnd self t1 t2 (if sc \<noteq> PInt 200 then ''error'' else ''info'')
           \<lparr>d_method = mth, d_url = tgt, d_msg = msg, d_status_code = sc\<rparr> = Inr (Some (c, f))"
    "emit os self tc tf (Some (c, f)) st = (None, st')"
    by (rule log_call_Inr)
  then show ?thesis
    by (intro exI [of _ sc] exI [of _ "\<lparr>d_method = mth, d_url = tgt, d_msg = msg, d_status_code = sc\<rparr>"]
          exI [of _ c] exI [of _ f]) simp
qed

theorem wrapper_kind_witness:
  "\<exists>sc data c f.
     getattr (PDotMap [(''status_code'', PInt 404), (''detail'', PStr ''not found'')]) ''status_code'' =
       Inr (sc, PDotMap [(''status_code'', PInt 404), (''detail'', PStr ''not found'')]) \<and>
     d_status_code data = sc \<and>
     schame_msg no_repr sample_logger sample_time sample_time
       (if sc \<noteq> PInt 200 then ''error'' else ''info'') data = Inr (Some (c, f)) \<and>
     emit mem_os sample_logger True True (Some (c, f)) sample_sys =
       (None, logged sample_error_console sample_error_file)"
  by (rule wrapper_kind [OF sample_logger_enabled run_find])

subsection \<open>The default fields\<close>

text \<open>
  Without a keyword argument \<^verbatim>\<open>request\<close> the line has the default fields, and for
  a return value \<^verbatim>\<open>None\<close> it is the \<^verbatim>\<open>info\<close> line with the status 200.
\<close>

lemma wrapper_default_fields:
  assumes "write_all self" and "map_of kwargs ''request'' = None"
  shows "(wrapper rnd os self tc tf func t1 t2 args kwargs st = (Inr v, st') \<longrightarrow>
          (\<exists>sc c f. getattr v ''status_code'' = Inr (sc, v) \<and>
             schame_msg rnd self t1 t2 (if sc \<noteq> PInt 200 then ''error'' else ''info'')
               \<lparr>d_method = PStr ''-'', d_url = PStr (f_name func), d_msg = PStr ''OK'',
                d_status_code = sc\<rparr> = Inr (Some (c, f)) \<and>
             emit os self tc tf (Some (c, f)) st = (None, st'))) \<and>
         (f_call func args kwargs = Inr PNone \<longrightarrow>
          (\<exists>c f. schame_msg rnd self t1 t2 ''info''
               \<lparr>d_method = PStr ''-'', d_url = PStr (f_name func), d_msg = PStr ''OK'',
                d_status_code = PInt 200\<rparr> = Inr (Some (c, f)) \<and>
             wrapper rnd os self tc tf func t1 t2 args kwargs st =
               (case emit os self tc tf (Some (c, f)) st of
                  (Some e, st1) \<Rightarrow> (Inl e, st1)
                | (None, st1) \<Rightarrow> (Inr (PDotMap [(''status_code'', PInt 200)]), st1))))"
proof (intro conjI impI)
  assume w: "wrapper rnd os self tc tf func t1 t2 args kwargs st = (Inr v, st')"
  from w assms(1) obtain r where
    lc: "log_call rnd os self tc tf t1 t2 (resolve_fields (f_name func) kwargs (normalize r)) st
           = (Inr v, st')"
    by (auto simp: wrapper_def Let_def split: sum.splits)
  have rf: "resolve_fields (f_name func) kwargs (normalize r) =
              Inr (PStr ''-'', PStr (f_name func), PStr ''OK'', normalize r)"
    using assms(2) by (rule resolve_fields_default)
  from lc obtain mth tgt msg r1 sc c f where
    fl: "resolve_fields (f_name func) kwargs (normalize r) = Inr (mth, tgt, msg, r1)"
    and g: "getattr v ''status_code'' = Inr (sc, v)"
    and sm: "schame_msg rnd self t1 t2 (if sc \<noteq> PInt 200 then ''error'' else ''info'')
           \<lparr>d_method = mth, d_url = tgt, d_msg = msg, d_status_code = sc\<rparr> = Inr (Some (c, f))"
    and em: "emit os self tc tf (Some (c, f)) st = (None, st')"
    by (rule log_call_Inr)
  from fl rf have "mth = PStr ''-''" "tgt = PStr (f_name func)" "msg = PStr ''OK''" by simp_all
  with g sm em show "\<exists>sc c f. getattr v ''status_code'' = Inr (sc, v) \<and>
             schame_msg rnd self t1 t2 (if sc \<noteq> PInt 200 then ''error'' else ''info'')
               \<lparr>d_method = PStr ''-'', d_url = PStr (f_name func), d_msg = PStr ''OK'',
                d_status_code = sc\<rparr> = Inr (Some (c, f)) \<and>
             emit os self tc tf (Some (c, f)) st = (None, st')"
    by blast
next
  assume fc: "f_call func args kwargs = Inr PNone"
  let ?d = "\<lparr>d_method = PStr ''-'', d_url = PStr (f_name func), d_msg = PStr ''OK'',
              d_status_code = PInt 200\<rparr>"
  obtain c f where sm: "schame_msg rnd self t1 t2 ''info'' ?d = Inr (Some (c, f))"
    using schame_msg_produces [of "''info''" ?d "''-''" "f_name func" 200 "[]" rnd self t1 t2]
    by auto
  have n: "normalize PNone = PDotMap [(''status_code'', PInt 200)]"
    by (simp add: normalize_def DotMap_def is_dict_def dotmap_setattr_def items_def)
  have le: "log_event (Inr (PStr ''-'', PStr (f_name func), PStr ''OK'', PDotMap [(''status_code'', PInt 200)]))
              = Inr (''info'', ?d, PDotMap [(''status_code'', PInt 200)])"
    by (simp add: log_event_def getattr_def)
  have "wrapper rnd os self tc tf func t1 t2 args kwargs st =
               (case emit os self tc tf (Some (c, f)) st of
                  (Some e, st1) \<Rightarrow> (Inl e, st1)
                | (None, st1) \<Rightarrow> (Inr (PDotMap [(''status_code'', PInt 200)]), st1))"
    using assms fc sm n le
    by (simp add: wrapper_def Let_def resolve_fields_default log_call_def)
  with sm show "\<exists>c f. schame_msg rnd self t1 t2 ''info'' ?d = Inr (Some (c, f)) \<and>
             wrapper rnd os self tc tf func t1 t2 args kwargs st =
               (case emit os self tc tf (Some (c, f)) st of
                  (Some e, st1) \<Rightarrow> (Inl e, st1)
                | (None, st1) \<Rightarrow> (Inr (PDotMap [(''status_code'', PInt 200)]), st1))"
    by blast
qed

text \<open>
  With a keyword argument \<^verbatim>\<open>request\<close>, whatever its value, the fields are read
  from it and from the result; a failing read leaves the wrapper with
  \<^verbatim>\<open>AttributeError\<close>.
\<close>

lemma resolve_fields_request:
  assumes "map_of kwargs ''request'' = Some rq"
    and "resolve_fields fname kwargs result = Inr (m, p, b, r1)"
  shows "\<exists>rq1 u rq2 u1. getattr rq ''method'' = Inr (m, rq1) \<and> getattr rq1 ''url'' = Inr (u, rq2) \<and>
           getattr u ''path'' = Inr (p, u1) \<and> getattr result ''body'' = Inr (b, r1)"
  using assms by (auto simp: resolve_fields_def split: sum.splits)

lemma wrapper_request_fields:
  assumes "write_all self" and "map_of kwargs ''request'' = Some rq"
    and "wrapper rnd os self tc tf func t1 t2 args kwargs st = (Inr v, st')"
  shows "\<exists>r m rq1 u rq2 p u1 b r1 sc c f.
           f_call func args kwargs = Inr r \<and>
           getattr rq ''method'' = Inr (m, rq1) \<and> getattr rq1 ''url'' = Inr (u, rq2) \<and>
           getattr u ''path'' = Inr (p, u1) \<and> getattr (normalize r) ''body'' = Inr (b, r1) \<and>
           getattr v ''status_code'' = Inr (sc, v) \<and>
           schame_msg rnd self t1 t2 (if sc \<noteq> PInt 200 then ''error'' else ''info'')
             \<lparr>d_method = m, d_url = p, d_msg = b, d_status_code = sc\<rparr> = Inr (Some (c, f)) \<and>
           emit os self tc tf (Some (c, f)) st = (None, st')"
proof -
  from assms(1,3) obtain r where fc: "f_call func args kwargs = Inr r"
    and lc: "log_call rnd os self tc tf t1 t2 (resolve_fields (f_name func) kwargs (normalize r)) st
               = (Inr v, st')"
    by (auto simp: wrapper_def Let_def split: sum.splits)
  from lc obtain m p b r1 sc c f where
    fl: "resolve_fields (f_name func) kwargs (normalize r) = Inr (m, p, b, r1)"
    and g: "getattr v ''status_code'' = Inr (sc, v)"
    and sm: "schame_msg rnd self t1 t2 (if sc \<noteq> PInt 200 then ''error'' else ''info'')
           \<lparr>d_method = m, d_url = p, d_msg = b, d_status_code = sc\<rparr> = Inr (Some (c, f))"
    and em: "emit os self tc tf (Some (c, f)) st = (None, st')"
    by (rule log_call_Inr)
  from resolve_fields_request [OF assms(2) fl] obtain rq1 u rq2 u1 where
    "getattr rq ''method'' = Inr (m, rq1)" "getattr rq1 ''url'' = Inr (u, rq2)"
    "getattr u ''path'' = Inr (p, u1)" "getattr (normalize r) ''body'' = Inr (b, r1)"
    by blast
  with fc g sm em show ?thesis by blast
qed

lemma wrapper_fields_raise:
  assumes "write_all self" and "f_call func args kwargs = Inr r"
    and "resolve_fields (f_name func) kwargs (normalize r) = Inl e"
  shows "wrapper rnd os self tc tf func t1 t2 args kwargs st = (Inl AttributeError, st)"
proof -
  have "e = AttributeError" using assms(3) by (rule resolve_fields_error)
  with assms show ?thesis by (simp add: wrapper_def Let_def log_call_def log_event_def)
qed

lemma wrapper_request_raises:
  assumes "write_all self" and "map_of kwargs ''request'' = Some rq"
    and "f_call func args kwargs = Inr r"
    and "\<not> (\<exists>m rq1 u rq2 p u1 b r1.
              getattr rq ''method'' = Inr (m, rq1) \<and> getattr rq1 ''url'' = Inr (u, rq2) \<and>
              getattr u ''path'' = Inr (p, u1) \<and> getattr (normalize r) ''body'' = Inr (b, r1))"
  shows "wrapper rnd os self tc tf func t1 t2 args kwargs st = (Inl AttributeError, st)"
proof (cases "resolve_fields (f_name func) kwargs (normalize r)")
  case (Inl e)
  with assms(1,3) show ?thesis by (rule wrapper_fields_raise)
next
  case (Inr q)
  obtain m p b r1 where "q = (m, p, b, r1)" by (cases q) auto
  with Inr resolve_fields_request [OF assms(2), of "f_name func" "normalize r" m p b r1] assms(4)
  show ?thesis by blast
qed

text \<open>
  C6, as the code has it. With \<^verbatim>\<open>write_all\<close> set and no keyword argument named
  \<^verbatim>\<open>request\<close>, the line sent to the sinks has the method \<^verbatim>\<open>-\<close>, the name of the
  wrapped function as its target and the message \<^verbatim>\<open>OK\<close>; when the wrapped function
  returns \<^verbatim>\<open>None\<close>, the line is the \<^verbatim>\<open>info\<close> line with the status 200, it
  exists, and the wrapper returns the \<^verbatim>\<open>DotMap\<close> with \<^verbatim>\<open>status_code\<close> 200 unless
  a sink raises. With a keyword argument named \<^verbatim>\<open>request\<close>, whatever its value, a
  call that returns has logged the \<^verbatim>\<open>method\<close> and the \<^verbatim>\<open>url.path\<close> of that value
  and the \<^verbatim>\<open>body\<close> of the result; when one of these cannot be read, the wrapper raises
  \<^verbatim>\<open>AttributeError\<close> and logs nothing.
\<close>

theorem wrapper_logged_fields:
  assumes "write_all self"
  shows "(map_of kwargs ''request'' = None \<longrightarrow>
           (wrapper rnd os self tc tf func t1 t2 args kwargs st = (Inr v, st') \<longrightarrow>
            (\<exists>sc c f. getattr v ''status_code'' = Inr (sc, v) \<and>
               schame_msg rnd self t1 t2 (if sc \<noteq> PInt 200 then ''error'' else ''info'')
                 \<lparr>d_method = PStr ''-'', d_url = PStr (f_name func), d_msg = PStr ''OK'',
                  d_status_code = sc\<rparr> = Inr (Some (c, f)) \<and>
               emit os self tc tf (Some (c, f)) st = (None, st'))) \<and>
           (f_call func args kwargs = Inr PNone \<longrightarrow>
            (\<exists>c f. schame_msg rnd self t1 t2 ''info''
                 \<lparr>d_method = PStr ''-'', d_url = PStr (f_name func), d_msg = PStr ''OK'',
                  d_status_code = PInt 200\<rparr> = Inr (Some (c, f)) \<and>
               wrapper rnd os self tc tf func t1 t2 args kwargs st =
                 (case emit os self tc tf (Some (c, f)) st of
                    (Some e, st1) \<Rightarrow> (Inl e, st1)
                  | (None, st1) \<Rightarrow> (Inr (PDotMap [(''status_code'', PInt 200)]), st1))))) \<and>
         (\<forall>rq. map_of kwargs ''request'' = Some rq \<longrightarrow>
           (wrapper rnd os self tc tf func t1 t2 args kwargs st = (Inr v, st') \<longrightarrow>
            (\<exists>r m rq1 u rq2 p u1 b r1 sc c f.
               f_call func args kwargs = Inr r \<and>
               getattr rq ''method'' = Inr (m, rq1) \<and> getattr rq1 ''url'' = Inr (u, rq2) \<and>
               getattr u ''path'' = Inr (p, u1) \<and> getattr (normalize r) ''body'' = Inr (b, r1) \<and>
               getattr v ''status_code'' = Inr (sc, v) \<and>
               schame_msg rnd self t1 t2 (if sc \<noteq> PInt 200 then ''error'' else ''info'')
                 \<lparr>d_method = m, d_url = p, d_msg = b, d_status_code = sc\<rparr> = Inr (Some (c, f)) \<and>
               emit os self tc tf (Some (c, f)) st = (None, st'))) \<and>
           (\<forall>r. f_call func args kwargs = Inr r \<and>
              \<not> (\<exists>m rq1 u rq2 p u1 b r1.
                   getattr rq ''method'' = Inr (m, rq1) \<and> getattr rq1 ''url'' = Inr (u, rq2) \<and>
                   getattr u ''path'' = Inr (p, u1) \<and> getattr (normalize r) ''body'' = Inr (b, r1)) \<longrightarrow>
              wrapper rnd os self tc tf func t1 t2 args kwargs st = (Inl AttributeError, st)))"
proof (intro conjI allI impI)
  assume "map_of kwargs ''request'' = None"
    and "wrapper rnd os self tc tf func t1 t2 args kwargs st = (Inr v, st')"
  then show "\<exists>sc c f. getattr v ''status_code'' = Inr (sc, v) \<and>
               schame_msg rnd self t1 t2 (if sc \<noteq> PInt 200 then ''error'' else ''info'')
                 \<lparr>d_method = PStr ''-'', d_url = PStr (f_name func), d_msg = PStr ''OK'',
                  d_status_code = sc\<rparr> = Inr (Some (c, f)) \<and>
               emit os self tc tf (Some (c, f)) st = (None, st')"
    using wrapper_default_fields [OF assms, of kwargs rnd os tc tf func t1 t2 args st v st'] by blast
next
  assume "map_of kwargs ''request'' = None" and "f_call func args kwargs = Inr PNone"
  then show "\<exists>c f. schame_msg rnd self t1 t2 ''info''
                 \<lparr>d_method = PStr ''-'', d_url = PStr (f_name func), d_msg = PStr ''OK'',
                  d_status_code = PInt 200\<rparr> = Inr (Some (c, f)) \<and>
               wrapper rnd os self tc tf func t1 t2 args kwargs st =
                 (case emit os self tc tf (Some (c, f)) st of
                    (Some e, st1) \<Rightarrow> (Inl e, st1)
                  | (None, st1) \<Rightarrow> (Inr (PDotMap [(''status_code'', PInt 200)]), st1))"
    using wrapper_default_fields [OF assms, of kwargs rnd os tc tf func t1 t2 args st v st'] by blast
next
  fix rq
  assume "map_of kwargs ''request'' = Some rq"
    and "wrapper rnd os self tc tf func t1 t2 args kwargs st = (Inr v, st')"
  with assms show "\<exists>r m rq1 u rq2 p u1 b r1 sc c f.
               f_call func args kwargs = Inr r \<and>
               getattr rq ''method'' = Inr (m, rq1) \<and> getattr rq1 ''url'' = Inr (u, rq2) \<and>
               getattr u ''path'' = Inr (p, u1) \<and> getattr (normalize r) ''body'' = Inr (b, r1) \<and>
               getattr v ''status_code'' = Inr (sc, v) \<and>
               schame_msg rnd self t1 t2 (if sc \<noteq> PInt 200 then ''error'' else ''info'')
                 \<lparr>d_method = m, d_url = p, d_msg = b, d_status_code = sc\<rparr> = Inr (Some (c, f)) \<and>
               emit os self tc tf (Some (c, f)) st = (None, st')"
    by (rule wrapper_request_fields)
next
  fix rq r
  assume k: "map_of kwargs ''request'' = Some rq"
    and h: "f_call func args kwargs = Inr r \<and>
         \<not> (\<exists>m rq1 u rq2 p u1 b r1.
              getattr rq ''method'' = Inr (m, rq1) \<and> getattr rq1 ''url'' = Inr (u, rq2) \<and>
              getattr u ''path'' = Inr (p, u1) \<and> getattr (normalize r) ''body'' = Inr (b, r1))"
  from h have fc: "f_call func args kwargs = Inr r" by (rule conjunct1)
  from h have nx: "\<not> (\<exists>m rq1 u rq2 p u1 b r1.
              getattr rq ''method'' = Inr (m, rq1) \<and> getattr rq1 ''url'' = Inr (u, rq2) \<and>
              getattr u ''path'' = Inr (p, u1) \<and> getattr (normalize r) ''body'' = Inr (b, r1))"
    by (rule conjunct2)
  show "wrapper rnd os self tc tf func t1 t2 args kwargs st = (Inl AttributeError, st)"
    by (rule wrapper_request_raises [OF assms k fc nx])
qed

theorem wrapper_logged_fields_witness:
  "wrapper no_repr mem_os sample_logger True True (returning ''ping'' PNone)
     sample_time sample_time [] [] sample_sys =
     (Inr (PDotMap [(''status_code'', PInt 200)]), logged sample_info_console sample_info_file) \<and>
   (\<exists>sc c f. getattr (PDotMap [(''status_code'', PInt 200)]) ''status_code'' =
        Inr (sc, PDotMap [(''status_code'', PInt 200)]) \<and>
      schame_msg no_repr sample_logger sample_time sample_time
        (if sc \<noteq> PInt 200 then ''error'' else ''info'')
        \<lparr>d_method = PStr ''-'', d_url = PStr ''ping'', d_msg = PStr ''OK'', d_status_code = sc\<rparr> =
        Inr (Some (c, f)) \<and>
      emit mem_os sample_logger True True (Some (c, f)) sample_sys =
        (None, logged sample_info_console sample_info_file)) \<and>
   (\<exists>m p b sc c f.
      getattr sample_response ''status_code'' = Inr (sc, sample_response) \<and>
      schame_msg no_repr sample_logger sample_time sample_time
        (if sc \<noteq> PInt 200 then ''error'' else ''info'')
        \<lparr>d_method = m, d_url = p, d_msg = b, d_status_code = sc\<rparr> = Inr (Some (c, f)) \<and>
      emit mem_os sample_logger True True (Some (c, f)) sample_sys =
        (None, logged sample_get_console sample_get_file)) \<and>
   wrapper no_repr mem_os sample_logger True True (returning ''ping'' PNone)
     sample_time sample_time [] [(''request'', PStr ''abc'')] sample_sys =
     (Inl AttributeError, sample_sys)"
proof -
  have k0: "map_of ([] :: (string \<times> pyval) list) ''request'' = None" by simp
  have k1: "map_of [(''request'', sample_request)] ''request'' = Some sample_request" by simp
  have k2: "map_of [(''request'', PStr ''abc'')] ''request'' = Some (PStr ''abc'')" by simp
  have c2: "f_call (returning ''ping'' PNone) [] [(''request'', PStr ''abc'')] = Inr PNone"
    by (simp add: returning_def)
  have n2: "\<not> (\<exists>m rq1 u rq2 p u1 b r1.
              getattr (PStr ''abc'') ''method'' = Inr (m, rq1) \<and> getattr rq1 ''url'' = Inr (u, rq2) \<and>
              getattr u ''path'' = Inr (p, u1) \<and> getattr (normalize PNone) ''body'' = Inr (b, r1))"
    by (simp add: getattr_def)
  note t0 = wrapper_logged_fields [OF sample_logger_enabled, of "[]" no_repr mem_os True True
      "returning ''ping'' PNone" sample_time sample_time "[]" sample_sys
      "PDotMap [(''status_code'', PInt 200)]" "logged sample_info_console sample_info_file"]
  note t1 = wrapper_logged_fields [OF sample_logger_enabled, of "[(''request'', sample_request)]"
      no_repr mem_os True True "returning ''ping'' sample_response" sample_time sample_time "[]"
      sample_sys sample_response "logged sample_get_console sample_get_file"]
  note t2 = wrapper_logged_fields [OF sample_logger_enabled, of "[(''request'', PStr ''abc'')]"
      no_repr mem_os True True "returning ''ping'' PNone" sample_time sample_time "[]"
      sample_sys]
  have a: "\<exists>sc c f. getattr (PDotMap [(''status_code'', PInt 200)]) ''status_code'' =
        Inr (sc, PDotMap [(''status_code'', PInt 200)]) \<and>
      schame_msg no_repr sample_logger sample_time sample_time
        (if sc \<noteq> PInt 200 then ''error'' else ''info'')
        \<lparr>d_method = PStr ''-'', d_url = PStr ''ping'', d_msg = PStr ''OK'', d_status_code = sc\<rparr> =
        Inr (Some (c, f)) \<and>
      emit mem_os sample_logger True True (Some (c, f)) sample_sys =
        (None, logged sample_info_console sample_info_file)"
    using t0 k0 run_plain by (simp add: returning_def)
  have b: "\<exists>m p b sc c f.
      getattr sample_response ''status_code'' = Inr (sc, sample_response) \<and>
      schame_msg no_repr sample_logger sample_time sample_time
        (if sc \<noteq> PInt 200 then ''error'' else ''info'')
        \<lparr>d_method = m, d_url = p, d_msg = b, d_status_code = sc\<rparr> = Inr (Some (c, f)) \<and>
      emit mem_os sample_logger True True (Some (c, f)) sample_sys =
        (None, logged sample_get_console sample_get_file)"
    using t1 k1 run_get by blast
  have c: "wrapper no_repr mem_os sample_logger True True (returning ''ping'' PNone)
     sample_time sample_time [] [(''request'', PStr ''abc'')] sample_sys =
     (Inl AttributeError, sample_sys)"
    using t2 k2 c2 n2 by blast
  from a b c run_plain show ?thesis by blast
qed

text \<open>
  The claim as it is stated fails: an object with \<^verbatim>\<open>method\<close> and \<^verbatim>\<open>url.path\<close>
  but no \<^verbatim>\<open>body\<close> is not request-like, yet under the keyword \<^verbatim>\<open>request\<close> its
  method and path are logged, with the \<^verbatim>\<open>body\<close> of the result as the message.
\<close>

theorem default_fields_counterexample:
  "wrapper no_repr mem_os sample_logger True True (returning ''ping'' PNone)
     sample_time sample_time [] [(''request'', sample_bare_request)] sample_sys =
   (Inr (PDotMap [(''status_code'', PInt 200), (''body'', PDotMap [])]),
    logged sample_bare_console sample_bare_file) \<and>
   getattr sample_bare_request ''body'' = Inl AttributeError \<and>
   sample_bare_console \<noteq> sample_info_console \<and>
   sample_bare_file \<noteq> sample_info_file"
  by code_simp

subsection \<open>The request is found by its keyword only\<close>

text \<open>
  C9. The wrapper looks for the key \<^verbatim>\<open>request\<close> among the keyword arguments only.
  Without that key it logs with the defaults, whatever the positional arguments and the
  other keyword arguments are, request objects included.
\<close>

theorem request_only_by_keyword:
  assumes "write_all self" and "map_of kwargs ''request'' = None"
    and "f_call func args kwargs = Inr r"
  shows "wrapper rnd os self tc tf func t1 t2 args kwargs st =
           log_call rnd os self tc tf t1 t2
             (Inr (PStr ''-'', PStr (f_name func), PStr ''OK'', normalize r)) st"
  using assms by (simp add: wrapper_def Let_def resolve_fields_default)

theorem request_only_by_keyword_witness:
  "wrapper no_repr mem_os sample_logger True True (returning ''ping'' PNone)
     sample_time sample_time [sample_request] [(''req'', sample_request)] sample_sys =
   (Inr (PDotMap [(''status_code'', PInt 200)]), logged sample_info_console sample_info_file)"
proof -
  have k: "map_of [(''req'', sample_request)] ''request'' = None" by simp
  have c: "f_call (returning ''ping'' PNone) [sample_request] [(''req'', sample_request)] = Inr PNone"
    by (simp add: returning_def)
  have n: "normalize PNone = PDotMap [(''status_code'', PInt 200)]" by code_simp
  show ?thesis
    using request_only_by_keyword [OF sample_logger_enabled k c, of no_repr mem_os True True
        sample_time sample_time sample_sys] run_positional n
    by (simp add: returning_def)
qed

subsection \<open>Return values that are not normalised\<close>



end
